theory Spec2Isabelle
  imports Main "HOL-Library.Word"
begin

section \<open>The PDF summarizer controller of \<open>src/App.js\<close>\<close>

text \<open>
  The component \<open>App\<close> owns five state variables and two handlers,
  \<open>handleFileChange\<close> (with the \<open>reader.onload\<close> callback it installs) and
  \<open>summarizeText\<close>. Each handler is embedded as a function from the state before to the
  state after, run to completion, together with a log of the calls it makes to its two
  collaborators (pdf.js and \<open>fetch\<close>). The collaborators are parameters of the handlers;
  a promise that rejects is the value \<open>None\<close>.

  JavaScript strings are lists of characters (\<open>.length\<close> is the length of the list,
  a string is falsy iff it is empty). A field of a response that may be \<open>undefined\<close>
  or \<open>null\<close> is an \<open>option\<close>, \<open>None\<close> standing for both: the code never tells them
  apart, since it only tests truthiness and reads properties. Interleaving of two handlers that are in
  flight at the same time is not part of the embedding, nor are the console output, the
  assignment of \<open>workerSrc\<close> (line 41) and the rendering of lines 135 to 201.
\<close>

subsection \<open>Strings\<close>

definition newline :: string where
  "newline = [CHR 0x0A]"

text \<open>\<open>Array.prototype.join\<close> on an array of strings.\<close>

fun js_join :: "string \<Rightarrow> string list \<Rightarrow> string" where
  "js_join sep [] = []"
| "js_join sep [x] = x"
| "js_join sep (x # y # ys) = x @ sep @ js_join sep (y # ys)"

subsection \<open>State (the \<open>useState\<close> hooks, lines 7 to 11)\<close>

type_synonym bytes = "8 word list"

record js_file =
  file_name :: string
  file_type :: string

text \<open>
  \<open>summary\<close> is the only variable that can receive a value that is not a string
  (\<open>parts[0].text\<close> of a response, line 111, which may be missing), hence the option.
\<close>

record app_state =
  pdfFile :: "js_file option"
  extractedText :: string
  summary :: "string option"
  loading :: bool
  error :: string

definition initial_state :: app_state where
  "initial_state =
     \<lparr>pdfFile = None, extractedText = [], summary = Some [], loading = False, error = []\<rparr>"

datatype js_exception = Rejection | SyntaxError | TypeError

subsection \<open>The fixed messages\<close>

definition msg_pdfjs_not_loaded :: string where
  "msg_pdfjs_not_loaded =
     ''PDF.js library not loaded. Please ensure it is linked correctly in index.html and try again.''"

definition msg_extract_failed :: string where
  "msg_extract_failed =
     ''Failed to extract text from PDF. Please ensure it'' @ [CHR 0x27] @
     ''s a valid PDF and not password protected.''"

definition msg_invalid_file :: string where
  "msg_invalid_file = ''Please upload a valid PDF file.''"

definition msg_no_text :: string where
  "msg_no_text = ''No text extracted to summarize. Please upload a PDF first.''"

definition msg_too_long :: string where
  "msg_too_long =
     ''The extracted text is very long (over 50,000 characters). Please try a smaller PDF or a more concise document, or consider using a different summarization approach for very large texts.''"

definition msg_no_candidates :: string where
  "msg_no_candidates =
     ''The AI did not provide any summary candidates. The content might be too sensitive or inappropriate for the model.''"

definition msg_unexpected :: string where
  "msg_unexpected =
     ''Failed to get a summary from the AI. The response structure was unexpected.''"

definition msg_network :: string where
  "msg_network =
     ''An error occurred while summarizing the text. Please check your internet connection or try again later. (Network Error/CORS issue)''"

subsection \<open>The text extractor (pdf.js) as the code uses it\<close>

text \<open>
  \<open>getTextContent\<close> holds \<open>items.map(item => item.str)\<close>, the fragments of the page;
  \<open>None\<close> is a rejected promise, for \<open>getTextContent\<close>, \<open>getPage\<close> and
  \<open>getDocument(...).promise\<close> alike. \<open>window.pdfjsLib\<close> is the function
  \<open>getDocument\<close>, or \<open>None\<close> when \<open>typeof window.pdfjsLib === 'undefined'\<close>.
\<close>

record pdf_page =
  getTextContent :: "string list option"

record pdf_document =
  numPages :: nat
  getPage :: "nat \<Rightarrow> pdf_page option"

type_synonym pdfjs = "bytes \<Rightarrow> pdf_document option"

datatype extractor_call = GetDocument bytes | GetPage nat | GetTextContent nat

text \<open>
  The loop of lines 45 to 50, from page \<open>i\<close> on, with \<open>fullText\<close> accumulated so far.
  A rejection leaves the loop at once.
\<close>

function extract_pages ::
  "pdf_document \<Rightarrow> nat \<Rightarrow> string \<Rightarrow> extractor_call list
     \<Rightarrow> (js_exception + string) \<times> extractor_call list" where
  "extract_pages pdf i fullText calls =
     (if i \<le> numPages pdf then
        (case getPage pdf i of
           None \<Rightarrow> (Inl Rejection, calls @ [GetPage i])
         | Some page \<Rightarrow>
             (case getTextContent page of
                None \<Rightarrow> (Inl Rejection, calls @ [GetPage i, GetTextContent i])
              | Some items \<Rightarrow>
                  extract_pages pdf (i + 1) (fullText @ js_join '' '' items @ newline)
                    (calls @ [GetPage i, GetTextContent i])))
      else (Inr fullText, calls))"
  by pat_completeness auto
termination
  by (relation "measure (\<lambda>(pdf, i, fullText, calls). numPages pdf + 1 - i)") auto

declare extract_pages.simps [simp del]

text \<open>The body of the \<open>try\<close> block of \<open>reader.onload\<close>, lines 33 to 52.\<close>

definition onload_try ::
  "pdfjs option \<Rightarrow> bytes \<Rightarrow> app_state
     \<Rightarrow> (js_exception + app_state) \<times> extractor_call list" where
  "onload_try pdfjsLib result s =
     (case pdfjsLib of
        None \<Rightarrow> (Inr (s\<lparr>error := msg_pdfjs_not_loaded, loading := False\<rparr>), [])
      | Some getDocument \<Rightarrow>
          (case getDocument result of
             None \<Rightarrow> (Inl Rejection, [GetDocument result])
           | Some pdf \<Rightarrow>
               (case extract_pages pdf 1 [] [GetDocument result] of
                  (Inl err, calls) \<Rightarrow> (Inl err, calls)
                | (Inr fullText, calls) \<Rightarrow>
                    (Inr (s\<lparr>extractedText := fullText, loading := False\<rparr>), calls))))"

text \<open>\<open>reader.onload\<close>, lines 31 to 58: the \<open>try\<close> block and its \<open>catch\<close>.\<close>

definition reader_onload ::
  "pdfjs option \<Rightarrow> bytes \<Rightarrow> app_state \<Rightarrow> app_state \<times> extractor_call list" where
  "reader_onload pdfjsLib result s =
     (case onload_try pdfjsLib result s of
        (Inr s', calls) \<Rightarrow> (s', calls)
      | (Inl err, calls) \<Rightarrow> (s\<lparr>error := msg_extract_failed, loading := False\<rparr>, calls))"

subsection \<open>File selection (\<open>handleFileChange\<close>, lines 21 to 66)\<close>

text \<open>
  \<open>event.target.files[0]\<close> is \<open>None\<close> when the selection is empty. The test of line
  23 is \<open>file && file.type === 'application/pdf'\<close>.
\<close>

definition is_pdf :: "js_file option \<Rightarrow> bool" where
  "is_pdf file = (case file of None \<Rightarrow> False | Some f \<Rightarrow> file_type f = ''application/pdf'')"

text \<open>
  The synchronous part of the handler. Its second result is the file handed to
  \<open>reader.readAsArrayBuffer\<close> (line 59), \<open>None\<close> when no reader is started; extraction
  happens later, in \<open>reader.onload\<close>, on the state returned here.
\<close>

definition handleFileChange :: "js_file option \<Rightarrow> app_state \<Rightarrow> app_state \<times> js_file option" where
  "handleFileChange file s =
     (if is_pdf file then
        (s\<lparr>pdfFile := file, extractedText := [], summary := Some [], error := [],
           loading := True\<rparr>, file)
      else
        (s\<lparr>pdfFile := None, extractedText := [], summary := Some [],
           error := msg_invalid_file\<rparr>, None))"

text \<open>
  A whole selection, run without interleaving: the handler, the file read (\<open>None\<close> when
  the reader fails; the code installs no \<open>onerror\<close>, so nothing runs then), and
  \<open>reader.onload\<close>.
\<close>

definition select_file ::
  "(js_file \<Rightarrow> bytes option) \<Rightarrow> pdfjs option \<Rightarrow> js_file option \<Rightarrow> app_state
     \<Rightarrow> app_state \<times> extractor_call list" where
  "select_file readAsArrayBuffer pdfjsLib file s =
     (case handleFileChange file s of
        (s1, None) \<Rightarrow> (s1, [])
      | (s1, Some f) \<Rightarrow>
          (case readAsArrayBuffer f of
             None \<Rightarrow> (s1, [])
           | Some result \<Rightarrow> reader_onload pdfjsLib result s1))"

subsection \<open>The summarization endpoint as the code reads it\<close>

text \<open>
  The parsed response body, with the fields the code probes. Every field may be missing
  or \<open>null\<close> (\<open>None\<close>), and so may an element of the two arrays; a field that is present
  has the type the endpoint documents. A body that is a JSON number, string, boolean or
  array has none of the three top-level fields, and the code treats it as it treats an
  object without them.
\<close>

record part =
  part_text :: "string option"

record content_obj =
  parts :: "part option list option"

record candidate =
  content :: "content_obj option"

record error_obj =
  message :: "string option"

record prompt_feedback =
  blockReason :: "string option"

record api_result =
  candidates :: "candidate option list option"
  result_error :: "error_obj option"
  promptFeedback :: "prompt_feedback option"

text \<open>
  What \<open>response.json()\<close> gives: a rejection when the body is not JSON, \<open>null\<close>, or an
  object.
\<close>

datatype json_body = JsonInvalid | JsonNull | JsonObject api_result

record response =
  ok :: bool
  json :: json_body

record chat_turn =
  role :: string
  turn_parts :: "string list"

record request =
  url :: string
  http_method :: string
  headers :: "(string \<times> string) list"
  contents :: "chat_turn list"

type_synonym fetch_fn = "request \<Rightarrow> response option"

definition apiUrl :: string where
  "apiUrl =
     ''https://generativelanguage.googleapis.com/v1beta/models/gemini-2.0-flash:generateContent?key=''"

definition summarize_request :: "string \<Rightarrow> request" where
  "summarize_request text =
     \<lparr>url = apiUrl, http_method = ''POST'',
      headers = [(''Content-Type'', ''application/json'')],
      contents = [\<lparr>role = ''user'',
        turn_parts = [''Summarize the following text:'' @ newline @ newline @ text]\<rparr>]\<rparr>"

text \<open>A string that may be missing is truthy iff it is present and not empty.\<close>

definition truthy :: "string option \<Rightarrow> bool" where
  "truthy v = (case v of None \<Rightarrow> False | Some str \<Rightarrow> str \<noteq> [])"

text \<open>
  The condition of lines 108 to 110, evaluated left to right with short circuit.
  \<open>result\<close> is \<open>None\<close> for a \<open>null\<close> body. Reading a property of \<open>null\<close> or
  \<open>undefined\<close> throws a \<open>TypeError\<close>: \<open>result.candidates\<close> on a \<open>null\<close> body,
  \<open>result.candidates[0].content\<close> on a \<open>null\<close> first candidate.
\<close>

definition has_summary :: "bool \<Rightarrow> api_result option \<Rightarrow> js_exception + bool" where
  "has_summary response_ok result =
     (if \<not> response_ok then Inr False
      else case result of
        None \<Rightarrow> Inl TypeError
      | Some r \<Rightarrow>
          (case candidates r of
             None \<Rightarrow> Inr False
           | Some [] \<Rightarrow> Inr False
           | Some (None # _) \<Rightarrow> Inl TypeError
           | Some (Some c # _) \<Rightarrow>
               (case content c of
                  None \<Rightarrow> Inr False
                | Some ct \<Rightarrow>
                    (case parts ct of
                       None \<Rightarrow> Inr False
                     | Some ps \<Rightarrow> Inr (length ps > 0)))))"

text \<open>
  \<open>result.candidates[0].content.parts[0].text\<close>, line 111: a \<open>TypeError\<close> unless the
  first candidate, its content and the first part are all there; the text itself may be
  missing.
\<close>

definition first_part_text :: "api_result option \<Rightarrow> js_exception + string option" where
  "first_part_text result =
     (case result of
        None \<Rightarrow> Inl TypeError
      | Some r \<Rightarrow>
          (case candidates r of
             Some (Some c # _) \<Rightarrow>
               (case content c of
                  Some ct \<Rightarrow>
                    (case parts ct of
                       Some (Some p # _) \<Rightarrow> Inr (part_text p)
                     | _ \<Rightarrow> Inl TypeError)
                | None \<Rightarrow> Inl TypeError)
           | _ \<Rightarrow> Inl TypeError))"

text \<open>\<open>result.error && result.error.message\<close> and its sibling for the block reason.\<close>

definition error_message :: "api_result \<Rightarrow> string option" where
  "error_message r = (case result_error r of None \<Rightarrow> None | Some e \<Rightarrow> message e)"

definition block_reason :: "api_result \<Rightarrow> string option" where
  "block_reason r = (case promptFeedback r of None \<Rightarrow> None | Some fb \<Rightarrow> blockReason fb)"

text \<open>
  The \<open>else\<close> branch, lines 114 to 124: the message chosen for a response without a
  summary. \<open>result.error\<close> on a \<open>null\<close> body throws.
\<close>

definition api_failure_message :: "api_result option \<Rightarrow> js_exception + string" where
  "api_failure_message result =
     (case result of
        None \<Rightarrow> Inl TypeError
      | Some r \<Rightarrow>
          (if truthy (error_message r) then
             Inr (''API Error: '' @ the (error_message r))
           else if truthy (block_reason r) then
             Inr (''Summary blocked due to: '' @ the (block_reason r) @
                  ''. Content might violate safety policies.'')
           else if candidates r \<noteq> None \<and> length (the (candidates r)) = 0 then
             Inr msg_no_candidates
           else Inr msg_unexpected))"

text \<open>
  The body of the \<open>try\<close> block, lines 90 to 126, on the state \<open>s\<close> that lines 85 to 87
  leave. Nothing is stored before the last point that can throw.
\<close>

definition summarize_try ::
  "fetch_fn \<Rightarrow> app_state \<Rightarrow> (js_exception + app_state) \<times> request list" where
  "summarize_try fetch s =
     (let req = summarize_request (extractedText s) in
      case fetch req of
        None \<Rightarrow> (Inl Rejection, [req])
      | Some response \<Rightarrow>
          (case json response of
             JsonInvalid \<Rightarrow> (Inl SyntaxError, [req])
           | body \<Rightarrow>
               (let result = (case body of JsonObject r \<Rightarrow> Some r | _ \<Rightarrow> None) in
                case has_summary (ok response) result of
                  Inl err \<Rightarrow> (Inl err, [req])
                | Inr True \<Rightarrow>
                    (case first_part_text result of
                       Inl err \<Rightarrow> (Inl err, [req])
                     | Inr text \<Rightarrow> (Inr (s\<lparr>summary := text\<rparr>), [req]))
                | Inr False \<Rightarrow>
                    (case api_failure_message result of
                       Inl err \<Rightarrow> (Inl err, [req])
                     | Inr msg \<Rightarrow> (Inr (s\<lparr>error := msg\<rparr>), [req])))))"

text \<open>
  \<open>summarizeText\<close>, lines 72 to 133: the two guards, the reset of lines 85 to 87, the
  \<open>try\<close> block, its \<open>catch\<close> and its \<open>finally\<close>. The second result lists the requests
  sent.
\<close>

definition summarize_start :: "app_state \<Rightarrow> app_state" where
  "summarize_start s = s\<lparr>loading := True, summary := Some [], error := []\<rparr>"

definition summarizeText :: "fetch_fn \<Rightarrow> app_state \<Rightarrow> app_state \<times> request list" where
  "summarizeText fetch s =
     (if extractedText s = [] then (s\<lparr>error := msg_no_text\<rparr>, [])
      else if length (extractedText s) > 50000 then (s\<lparr>error := msg_too_long\<rparr>, [])
      else
        (case summarize_try fetch (summarize_start s) of
           (Inr s', sent) \<Rightarrow> (s'\<lparr>loading := False\<rparr>, sent)
         | (Inl err, sent) \<Rightarrow>
             ((summarize_start s)\<lparr>error := msg_network, loading := False\<rparr>, sent)))"

subsection \<open>The summarize button (lines 179 to 189)\<close>





subsection \<open>Concrete inputs\<close>

text \<open>The two-page document of the scenario: \<open>["Hello", "world"]\<close>, then \<open>["Bye"]\<close>.\<close>

definition two_page_pdf :: pdf_document where
  "two_page_pdf =
     \<lparr>numPages = 2,
      getPage = (\<lambda>i. if i = 1 then Some \<lparr>getTextContent = Some [''Hello'', ''world'']\<rparr>
                     else if i = 2 then Some \<lparr>getTextContent = Some [''Bye'']\<rparr>
                     else None)\<rparr>"

definition getDocument_two_page :: pdfjs where
  "getDocument_two_page data = Some two_page_pdf"

definition sample_pdf :: js_file where
  "sample_pdf = \<lparr>file_name = ''paper.pdf'', file_type = ''application/pdf''\<rparr>"

definition sample_txt :: js_file where
  "sample_txt = \<lparr>file_name = ''notes.txt'', file_type = ''text/plain''\<rparr>"


text \<open>The state after the two-page document has been extracted.\<close>

definition ready_state :: app_state where
  "ready_state =
     \<lparr>pdfFile = Some sample_pdf, extractedText = ''Hello world'' @ newline @ ''Bye'' @ newline,
      summary = Some [], loading = False, error = []\<rparr>"

text \<open>
  A state with a text of 50001 characters and a summary on display, and one with a text
  of exactly 50000 characters.
\<close>

definition oversized_state :: app_state where
  "oversized_state =
     \<lparr>pdfFile = Some sample_pdf, extractedText = replicate 50001 (CHR ''a''),
      summary = Some ''An earlier summary.'', loading = False, error = ''An earlier error.''\<rparr>"

definition limit_state :: app_state where
  "limit_state =
     \<lparr>pdfFile = Some sample_pdf, extractedText = replicate 50000 (CHR ''a''),
      summary = Some [], loading = False, error = []\<rparr>"

text \<open>Endpoints: one that cannot be reached, and one for each shape of answer.\<close>

definition fetch_rejects :: fetch_fn where
  "fetch_rejects req = None"

definition fetch_null_body :: fetch_fn where
  "fetch_null_body req = Some \<lparr>ok = False, json = JsonNull\<rparr>"

definition summary_result :: api_result where
  "summary_result =
     \<lparr>candidates = Some [Some \<lparr>content = Some
        \<lparr>parts = Some [Some \<lparr>part_text = Some ''A short summary.''\<rparr>]\<rparr>\<rparr>],
      result_error = None, promptFeedback = None\<rparr>"

definition fetch_summary :: fetch_fn where
  "fetch_summary req = Some \<lparr>ok = True, json = JsonObject summary_result\<rparr>"

definition error_result :: api_result where
  "error_result =
     \<lparr>candidates = Some [], result_error = Some \<lparr>message = Some ''API key not valid.''\<rparr>,
      promptFeedback = Some \<lparr>blockReason = Some ''SAFETY''\<rparr>\<rparr>"

definition fetch_api_error :: fetch_fn where
  "fetch_api_error req = Some \<lparr>ok = False, json = JsonObject error_result\<rparr>"

definition blocked_result :: api_result where
  "blocked_result =
     \<lparr>candidates = Some [], result_error = None,
      promptFeedback = Some \<lparr>blockReason = Some ''SAFETY''\<rparr>\<rparr>"

definition fetch_blocked :: fetch_fn where
  "fetch_blocked req = Some \<lparr>ok = True, json = JsonObject blocked_result\<rparr>"

definition empty_result :: api_result where
  "empty_result = \<lparr>candidates = Some [], result_error = None, promptFeedback = None\<rparr>"

definition fetch_no_candidates :: fetch_fn where
  "fetch_no_candidates req = Some \<lparr>ok = True, json = JsonObject empty_result\<rparr>"

definition bare_result :: api_result where
  "bare_result = \<lparr>candidates = None, result_error = None, promptFeedback = None\<rparr>"

definition fetch_bare :: fetch_fn where
  "fetch_bare req = Some \<lparr>ok = True, json = JsonObject bare_result\<rparr>"

text \<open>A failed request answered with the body \<open>{}\<close>, the sibling of \<open>fetch_null_body\<close>.\<close>

definition fetch_empty_object :: fetch_fn where
  "fetch_empty_object req = Some \<lparr>ok = False, json = JsonObject bare_result\<rparr>"

text \<open>A successful response whose first part carries no text, beside an error object.\<close>

definition textless_result :: api_result where
  "textless_result =
     \<lparr>candidates = Some [Some \<lparr>content = Some \<lparr>parts = Some [Some \<lparr>part_text = None\<rparr>]\<rparr>\<rparr>],
      result_error = Some \<lparr>message = Some ''quota exceeded''\<rparr>, promptFeedback = None\<rparr>"

definition fetch_textless :: fetch_fn where
  "fetch_textless req = Some \<lparr>ok = True, json = JsonObject textless_result\<rparr>"

section \<open>Extraction\<close>

lemma extract_pages_all_ok:
  assumes "\<forall>k. i \<le> k \<and> k \<le> numPages pdf \<longrightarrow>
             (\<exists>page. getPage pdf k = Some page \<and> getTextContent page = Some (F k))"
  shows "fst (extract_pages pdf i acc calls) =
           Inr (acc @ concat (map (\<lambda>k. js_join '' '' (F k) @ newline) [i..<Suc (numPages pdf)]))"
  using assms
proof (induction pdf i acc calls rule: extract_pages.induct)
  case (1 pdf i fullText calls)
  show ?case
  proof (cases "i \<le> numPages pdf")
    case False
    then show ?thesis
      by (simp add: extract_pages.simps [of pdf i])
  next
    case True
    from "1.prems" True obtain page where
      pg: "getPage pdf i = Some page" "getTextContent page = Some (F i)"
      by blast
    have rest: "\<forall>k. i + 1 \<le> k \<and> k \<le> numPages pdf \<longrightarrow>
             (\<exists>page. getPage pdf k = Some page \<and> getTextContent page = Some (F k))"
      using "1.prems" by auto
    have ih: "fst (extract_pages pdf (i + 1) (fullText @ js_join '' '' (F i) @ newline)
                (calls @ [GetPage i, GetTextContent i])) =
           Inr ((fullText @ js_join '' '' (F i) @ newline) @
                concat (map (\<lambda>k. js_join '' '' (F k) @ newline) [i + 1..<Suc (numPages pdf)]))"
      by (rule "1.IH" [OF True pg rest])
    have unroll: "[i..<Suc (numPages pdf)] = i # [i + 1..<Suc (numPages pdf)]"
      using True by (simp add: upt_conv_Cons)
    show ?thesis
      using True pg ih by (simp add: extract_pages.simps [of pdf i] unroll del: upt_Suc)
  qed
qed

lemma concat_pages_by_index:
  "concat (map (\<lambda>k. g (Fs ! (k - 1))) [1..<Suc (length Fs)]) = concat (map g Fs)"
proof -
  have "map (\<lambda>k. g (Fs ! (k - 1))) [1..<Suc (length Fs)] =
        map (\<lambda>k. g (Fs ! k)) [0..<length Fs]"
    by (simp add: map_Suc_upt [symmetric] del: upt_Suc)
  also have "\<dots> = map g (map (\<lambda>k. Fs ! k) [0..<length Fs])"
    by simp
  also have "\<dots> = map g Fs"
    by (simp only: map_nth)
  finally show ?thesis by simp
qed

text \<open>
  Claim C1. When the extractor is present and yields a document of \<open>N\<close> pages, page
  \<open>i\<close> (counted from 1) contributing the fragment list \<open>Fs ! (i - 1)\<close>, the extracted
  text stored by \<open>reader.onload\<close> is the concatenation, in increasing page order, of the
  fragments of each page joined by one space and followed by a line break.
\<close>

theorem extracted_text_is_pages_in_order:
  assumes "getDocument result = Some pdf"
    and "numPages pdf = length Fs"
    and "\<forall>i < length Fs. \<exists>page. getPage pdf (i + 1) = Some page
            \<and> getTextContent page = Some (Fs ! i)"
  shows "extractedText (fst (reader_onload (Some getDocument) result s)) =
           concat (map (\<lambda>F. js_join '' '' F @ newline) Fs)"
proof -
  have pages: "\<forall>k. 1 \<le> k \<and> k \<le> numPages pdf \<longrightarrow>
      (\<exists>page. getPage pdf k = Some page \<and> getTextContent page = Some (Fs ! (k - 1)))"
  proof (intro allI impI)
    fix k assume k: "1 \<le> k \<and> k \<le> numPages pdf"
    then have "k - 1 < length Fs" using assms(2) by arith
    with assms(3) obtain page where
      "getPage pdf (k - 1 + 1) = Some page" "getTextContent page = Some (Fs ! (k - 1))"
      by blast
    with k show "\<exists>page. getPage pdf k = Some page \<and> getTextContent page = Some (Fs ! (k - 1))"
      by simp
  qed
  have "fst (extract_pages pdf 1 [] [GetDocument result]) =
          Inr ([] @ concat (map (\<lambda>k. js_join '' '' (Fs ! (k - 1)) @ newline)
                 [1..<Suc (numPages pdf)]))"
    by (rule extract_pages_all_ok [OF pages])
  then have loop: "fst (extract_pages pdf 1 [] [GetDocument result]) =
          Inr (concat (map (\<lambda>F. js_join '' '' F @ newline) Fs))"
    using concat_pages_by_index [of "\<lambda>F. js_join '' '' F @ newline" Fs]
    by (simp only: assms(2) append_Nil)
  obtain r calls where rc: "extract_pages pdf 1 [] [GetDocument result] = (r, calls)"
    by (cases "extract_pages pdf 1 [] [GetDocument result]")
  with loop have "r = Inr (concat (map (\<lambda>F. js_join '' '' F @ newline) Fs))"
    by simp
  with rc show ?thesis
    using assms(1) by (simp add: reader_onload_def onload_try_def)
qed

theorem extracted_text_is_pages_in_order_witness:
  "getDocument_two_page [] = Some two_page_pdf
   \<and> numPages two_page_pdf = length [[''Hello'', ''world''], [''Bye'']]
   \<and> extractedText (fst (reader_onload (Some getDocument_two_page) [] initial_state)) =
       ''Hello world'' @ newline @ ''Bye'' @ newline"
  using extracted_text_is_pages_in_order
    [of getDocument_two_page "[]" two_page_pdf "[[''Hello'', ''world''], [''Bye'']]" initial_state]
  by (simp add: getDocument_two_page_def two_page_pdf_def less_Suc_eq numeral_2_eq_2)

section \<open>File selection\<close>

text \<open>
  Claim C6. A selection that is empty or whose declared media type is not
  \<open>application/pdf\<close> retains no document handle, leaves the extracted text and the
  summary empty whatever they were, sets the fixed, non-empty message of line 64, starts
  no reader and makes no call to the extractor.
\<close>

theorem non_pdf_selection_rejected:
  assumes "\<forall>f. file = Some f \<longrightarrow> file_type f \<noteq> ''application/pdf''"
  shows "pdfFile (fst (handleFileChange file s)) = None
    \<and> extractedText (fst (handleFileChange file s)) = []
    \<and> summary (fst (handleFileChange file s)) = Some []
    \<and> error (fst (handleFileChange file s)) = msg_invalid_file
    \<and> msg_invalid_file \<noteq> []
    \<and> snd (handleFileChange file s) = None
    \<and> select_file readAsArrayBuffer pdfjsLib file s = (fst (handleFileChange file s), [])"
proof -
  have "\<not> is_pdf file"
    using assms by (cases "file") (simp_all add: is_pdf_def)
  then show ?thesis
    by (simp add: handleFileChange_def select_file_def msg_invalid_file_def)
qed

theorem non_pdf_selection_rejected_witness:
  "file_type sample_txt \<noteq> ''application/pdf''
   \<and> select_file (\<lambda>f. Some []) (Some getDocument_two_page) (Some sample_txt) oversized_state =
       (\<lparr>pdfFile = None, extractedText = [], summary = Some [], loading = False,
         error = msg_invalid_file\<rparr>, [])"
  using non_pdf_selection_rejected
    [of "Some sample_txt" oversized_state "\<lambda>f. Some []" "Some getDocument_two_page"]
  by (simp add: sample_txt_def oversized_state_def handleFileChange_def is_pdf_def)

text \<open>
  Claim C7. Selecting a file whose declared media type is \<open>application/pdf\<close> keeps the
  handle, empties the extracted text, the summary and the error message and sets the
  busy flag; the reader is started on that file, and \<open>reader.onload\<close>, where extraction
  happens, runs on the state so reset.
\<close>

theorem pdf_selection_resets_then_extracts:
  assumes "file_type f = ''application/pdf''"
  shows "snd (handleFileChange (Some f) s) = Some f
    \<and> pdfFile (fst (handleFileChange (Some f) s)) = Some f
    \<and> extractedText (fst (handleFileChange (Some f) s)) = []
    \<and> summary (fst (handleFileChange (Some f) s)) = Some []
    \<and> error (fst (handleFileChange (Some f) s)) = []
    \<and> loading (fst (handleFileChange (Some f) s)) = True
    \<and> select_file readAsArrayBuffer pdfjsLib (Some f) s =
        (case readAsArrayBuffer f of
           None \<Rightarrow> (fst (handleFileChange (Some f) s), [])
         | Some result \<Rightarrow> reader_onload pdfjsLib result (fst (handleFileChange (Some f) s)))"
  using assms
  by (simp add: handleFileChange_def select_file_def is_pdf_def split: option.split)

theorem pdf_selection_resets_then_extracts_witness:
  "file_type sample_pdf = ''application/pdf''
   \<and> handleFileChange (Some sample_pdf) oversized_state =
       (\<lparr>pdfFile = Some sample_pdf, extractedText = [], summary = Some [], loading = True,
         error = []\<rparr>, Some sample_pdf)"
  using pdf_selection_resets_then_extracts
    [of sample_pdf oversized_state "\<lambda>f. Some []" "Some getDocument_two_page"]
  by (simp add: sample_pdf_def oversized_state_def handleFileChange_def is_pdf_def)

text \<open>
  Claim C9. When \<open>window.pdfjsLib\<close> is undefined, \<open>reader.onload\<close> stores the fixed
  message of line 35 and clears the busy flag. The \<open>try\<close> block returns normally (nothing
  is thrown, so nothing can escape), and no call to the extractor is made, neither a
  first one nor a repeated one.
\<close>

theorem missing_pdfjs_is_reported:
  "onload_try None result s =
     (Inr (s\<lparr>error := msg_pdfjs_not_loaded, loading := False\<rparr>), [])
   \<and> reader_onload None result s = (s\<lparr>error := msg_pdfjs_not_loaded, loading := False\<rparr>, [])
   \<and> error (fst (reader_onload None result s)) = msg_pdfjs_not_loaded
   \<and> loading (fst (reader_onload None result s)) = False"
  by (simp add: reader_onload_def onload_try_def)

section \<open>Summarization\<close>

lemma summarize_try_sent:
  "snd (summarize_try fetch s) = [summarize_request (extractedText s)]"
  by (simp add: summarize_try_def Let_def
      split: option.split json_body.split sum.split bool.split)

lemma summarize_try_keeps:
  assumes "summarize_try fetch s = (Inr s', sent)"
  shows "loading s' = loading s \<and> extractedText s' = extractedText s \<and> pdfFile s' = pdfFile s"
  using assms
  by (auto simp: summarize_try_def Let_def
      split: option.splits json_body.splits sum.splits bool.splits)

lemma summarizeText_past_guards:
  assumes "extractedText s \<noteq> []" and "length (extractedText s) \<le> 50000"
  shows "summarizeText fetch s =
     (case summarize_try fetch (summarize_start s) of
        (Inr s', sent) \<Rightarrow> (s'\<lparr>loading := False\<rparr>, sent)
      | (Inl err, sent) \<Rightarrow>
          ((summarize_start s)\<lparr>error := msg_network, loading := False\<rparr>, sent))"
  using assms by (simp add: summarizeText_def)

lemma has_summary_True:
  assumes "candidates r = Some (Some c # cs)" and "content c = Some ct"
    and "parts ct = Some (p # ps)"
  shows "has_summary True (Some r) = Inr True"
  using assms by (simp add: has_summary_def)

text \<open>The condition of lines 108 to 110 in terms of the response.\<close>

lemma has_summary_throws_iff:
  "has_summary response_ok (Some r) = Inl err \<longleftrightarrow>
     response_ok \<and> err = TypeError \<and> (\<exists>cs. candidates r = Some (None # cs))"
  by (auto simp: has_summary_def split: option.splits list.splits)

lemma has_summary_True_iff:
  "has_summary response_ok (Some r) = Inr True \<longleftrightarrow>
     response_ok \<and> (\<exists>c cs ct p ps. candidates r = Some (Some c # cs)
        \<and> content c = Some ct \<and> parts ct = Some (p # ps))"
  by (auto simp: has_summary_def neq_Nil_conv split: option.splits list.splits)

text \<open>
  Claim C3. In every state whose extracted text is empty, and in every state whose
  extracted text is longer than 50000 characters, \<open>summarizeText\<close> sends no request,
  whatever the endpoint would answer, and changes nothing but the error message, which
  becomes the fixed message of line 74 in the first case and that of line 81 in the
  second.
\<close>

theorem guards_fail_without_request:
  "(extractedText s = [] \<longrightarrow> summarizeText fetch s = (s\<lparr>error := msg_no_text\<rparr>, []))
   \<and> (50000 < length (extractedText s) \<longrightarrow>
        summarizeText fetch s = (s\<lparr>error := msg_too_long\<rparr>, []))"
  by (auto simp: summarizeText_def)

theorem guards_fail_without_request_witness:
  "extractedText initial_state = []
   \<and> summarizeText fetch_summary initial_state = (initial_state\<lparr>error := msg_no_text\<rparr>, [])
   \<and> 50000 < length (extractedText oversized_state)
   \<and> summarizeText fetch_summary oversized_state = (oversized_state\<lparr>error := msg_too_long\<rparr>, [])"
  using guards_fail_without_request [of initial_state fetch_summary]
    guards_fail_without_request [of oversized_state fetch_summary]
  by (simp add: initial_state_def oversized_state_def)

text \<open>
  Claim C10. The bound of line 80 is 50000 and the comparison is strict: a text of
  exactly 50000 characters is sent to the endpoint, in one request; a longer one is
  rejected with the message of line 81 and without a request; and no other text is
  rejected in that way.
\<close>

theorem length_limit_is_strict:
  "(length (extractedText s) = 50000 \<longrightarrow>
      snd (summarizeText fetch s) = [summarize_request (extractedText s)])
   \<and> (50000 < length (extractedText s) \<longrightarrow>
        summarizeText fetch s = (s\<lparr>error := msg_too_long\<rparr>, []))
   \<and> (summarizeText fetch s = (s\<lparr>error := msg_too_long\<rparr>, []) \<longleftrightarrow>
        50000 < length (extractedText s))"
proof -
  have sent: "snd (summarizeText fetch s) = [summarize_request (extractedText s)]"
    if "extractedText s \<noteq> []" and "length (extractedText s) \<le> 50000"
  proof -
    obtain r sent where r: "summarize_try fetch (summarize_start s) = (r, sent)"
      by (cases "summarize_try fetch (summarize_start s)")
    have "sent = [summarize_request (extractedText (summarize_start s))]"
      using summarize_try_sent [of fetch "summarize_start s"] r by simp
    then have "sent = [summarize_request (extractedText s)]"
      by (simp add: summarize_start_def)
    then show ?thesis
      using r that by (cases r) (simp_all add: summarizeText_past_guards)
  qed
  have a: "length (extractedText s) = 50000 \<longrightarrow>
      snd (summarizeText fetch s) = [summarize_request (extractedText s)]"
  proof
    assume len: "length (extractedText s) = 50000"
    then have "extractedText s \<noteq> []" by auto
    with len show "snd (summarizeText fetch s) = [summarize_request (extractedText s)]"
      using sent by simp
  qed
  have b: "50000 < length (extractedText s) \<longrightarrow>
        summarizeText fetch s = (s\<lparr>error := msg_too_long\<rparr>, [])"
    by (auto simp: summarizeText_def)
  have c: "summarizeText fetch s = (s\<lparr>error := msg_too_long\<rparr>, []) \<longleftrightarrow>
        50000 < length (extractedText s)"
  proof
    assume rejected: "summarizeText fetch s = (s\<lparr>error := msg_too_long\<rparr>, [])"
    show "50000 < length (extractedText s)"
    proof (rule ccontr)
      assume short: "\<not> 50000 < length (extractedText s)"
      show False
      proof (cases "extractedText s = []")
        case True
        then have "error (fst (summarizeText fetch s)) = msg_no_text"
          by (simp add: summarizeText_def)
        with rejected have "msg_too_long = msg_no_text" by simp
        then show False by (simp add: msg_too_long_def msg_no_text_def)
      next
        case False
        with short have "snd (summarizeText fetch s) = [summarize_request (extractedText s)]"
          using sent by simp
        with rejected show False by simp
      qed
    qed
  next
    assume "50000 < length (extractedText s)"
    with b show "summarizeText fetch s = (s\<lparr>error := msg_too_long\<rparr>, [])" by simp
  qed
  from a b c show ?thesis by blast
qed

theorem length_limit_is_strict_witness:
  "length (extractedText limit_state) = 50000
   \<and> snd (summarizeText fetch_rejects limit_state) =
       [summarize_request (replicate 50000 (CHR ''a''))]
   \<and> snd (summarizeText fetch_rejects oversized_state) = []"
  using length_limit_is_strict [of limit_state fetch_rejects]
    length_limit_is_strict [of oversized_state fetch_rejects]
  by (simp add: limit_state_def oversized_state_def)

text \<open>
  Claim C4. When the guards pass and the endpoint answers with a response that indicates
  success and whose first candidate has a first part with text \<open>X\<close>, the stored summary
  is exactly \<open>X\<close> and the error message is empty afterwards.
\<close>

theorem success_response_is_stored:
  assumes "extractedText s \<noteq> []" and "length (extractedText s) \<le> 50000"
    and "fetch (summarize_request (extractedText s)) = Some resp"
    and "ok resp" and "json resp = JsonObject r"
    and "candidates r = Some (Some c # cs)" and "content c = Some ct"
    and "parts ct = Some (Some p # ps)" and "part_text p = Some X"
  shows "summary (fst (summarizeText fetch s)) = Some X
    \<and> error (fst (summarizeText fetch s)) = []"
proof -
  have cond: "has_summary (ok resp) (Some r) = Inr True"
    using assms(4) has_summary_True [OF assms(6) assms(7) assms(8)] by simp
  have first_text: "first_part_text (Some r) = Inr (Some X)"
    using assms(6-9) by (simp add: first_part_text_def)
  have "summarize_try fetch (summarize_start s) =
          (Inr ((summarize_start s)\<lparr>summary := Some X\<rparr>), [summarize_request (extractedText s)])"
    using assms(3,5) cond first_text by (simp add: summarize_try_def summarize_start_def)
  then show ?thesis
    using assms(1,2) by (simp add: summarizeText_past_guards summarize_start_def)
qed

theorem success_response_is_stored_witness:
  "summary (fst (summarizeText fetch_summary ready_state)) = Some ''A short summary.''
   \<and> error (fst (summarizeText fetch_summary ready_state)) = []"
proof -
  have "extractedText ready_state \<noteq> []" "length (extractedText ready_state) \<le> 50000"
    by (simp_all add: ready_state_def newline_def)
  moreover have "fetch_summary (summarize_request (extractedText ready_state)) =
      Some \<lparr>ok = True, json = JsonObject summary_result\<rparr>"
    by (simp add: fetch_summary_def)
  moreover have "candidates summary_result = Some [Some \<lparr>content = Some
        \<lparr>parts = Some [Some \<lparr>part_text = Some ''A short summary.''\<rparr>]\<rparr>\<rparr>]"
    by (simp add: summary_result_def)
  ultimately show ?thesis
    using success_response_is_stored [of ready_state fetch_summary
        "\<lparr>ok = True, json = JsonObject summary_result\<rparr>" summary_result
        "\<lparr>content = Some \<lparr>parts = Some [Some \<lparr>part_text = Some ''A short summary.''\<rparr>]\<rparr>\<rparr>"
        "[]" "\<lparr>parts = Some [Some \<lparr>part_text = Some ''A short summary.''\<rparr>]\<rparr>"
        "\<lparr>part_text = Some ''A short summary.''\<rparr>" "[]" "''A short summary.''"]
    by simp
qed

section \<open>The busy flag\<close>



text \<open>A read that fails never reaches \<open>reader.onload\<close>: the busy flag stays set.\<close>

lemma failed_read_stays_busy:
  assumes "file_type f = ''application/pdf''" and "readAsArrayBuffer f = None"
  shows "loading (fst (select_file readAsArrayBuffer pdfjsLib (Some f) s)) = True"
  using assms by (simp add: select_file_def handleFileChange_def is_pdf_def)




section \<open>What a summarization attempt clears\<close>

lemma summarize_try_summary:
  assumes "summarize_try fetch s = (Inr s', sent)"
  shows "summary s' = summary s \<or>
    (\<exists>resp r. fetch (summarize_request (extractedText s)) = Some resp \<and> ok resp
       \<and> json resp = JsonObject r \<and> first_part_text (Some r) = Inr (summary s'))"
proof (cases "fetch (summarize_request (extractedText s))")
  case None
  with assms show ?thesis by (simp add: summarize_try_def)
next
  case (Some resp)
  show ?thesis
  proof (cases "json resp")
    case JsonInvalid
    with Some assms show ?thesis by (simp add: summarize_try_def)
  next
    case JsonNull
    with Some assms show ?thesis
      by (auto simp: summarize_try_def has_summary_def first_part_text_def
          api_failure_message_def split: if_splits)
  next
    case (JsonObject r)
    show ?thesis
    proof (cases "has_summary (ok resp) (Some r)")
      case (Inl err)
      with Some JsonObject assms show ?thesis by (simp add: summarize_try_def)
    next
      case (Inr b)
      show ?thesis
      proof (cases b)
        case False
        with Inr Some JsonObject assms show ?thesis
          by (auto simp: summarize_try_def Let_def split: sum.splits)
      next
        case True
        then have "ok resp"
          using Inr by (auto simp: has_summary_def split: if_splits)
        with True Inr Some JsonObject assms show ?thesis
          by (auto simp: summarize_try_def Let_def split: sum.splits)
      qed
    qed
  qed
qed

text \<open>
  Claim C8, as stated, fails: the guards of lines 73 to 83 return before the reset of
  lines 85 to 87. With a text of 50001 characters and an earlier summary on display, the
  rejected attempt leaves that summary where it was, although no call has succeeded.
\<close>

theorem summary_kept_by_guard:
  "summary (fst (summarizeText fetch_rejects oversized_state)) = Some ''An earlier summary.''
   \<and> summary (fst (summarizeText fetch_rejects oversized_state)) \<noteq> Some []
   \<and> error (fst (summarizeText fetch_rejects oversized_state)) \<noteq> []"
  by (simp add: summarizeText_def oversized_state_def msg_too_long_def)

text \<open>
  Claim C8, amended. An attempt that passes both guards forgets the summary and the error
  message stored before: its result is the same whatever they were, and afterwards the
  summary is empty unless the endpoint answered with a successful response, in which case
  it is the text of that response. An attempt that a guard rejects leaves the stored
  summary unchanged and replaces the error message by the guard's message.
\<close>

theorem summarize_forgets_summary_and_error:
  "(extractedText s \<noteq> [] \<and> length (extractedText s) \<le> 50000 \<longrightarrow>
      summarizeText fetch (s\<lparr>summary := old_summary, error := old_error\<rparr>) =
        summarizeText fetch s
      \<and> (summary (fst (summarizeText fetch s)) = Some [] \<or>
         (\<exists>resp r. fetch (summarize_request (extractedText s)) = Some resp \<and> ok resp
            \<and> json resp = JsonObject r
            \<and> first_part_text (Some r) = Inr (summary (fst (summarizeText fetch s))))))
   \<and> (extractedText s = [] \<or> 50000 < length (extractedText s) \<longrightarrow>
        summary (fst (summarizeText fetch s)) = summary s
        \<and> (error (fst (summarizeText fetch s)) = msg_no_text
           \<or> error (fst (summarizeText fetch s)) = msg_too_long))"
proof -
  have forget: "summarizeText fetch (s\<lparr>summary := old_summary, error := old_error\<rparr>) =
        summarizeText fetch s"
    if "extractedText s \<noteq> []" "length (extractedText s) \<le> 50000"
  proof -
    have "summarize_start (s\<lparr>summary := old_summary, error := old_error\<rparr>) =
        summarize_start s"
      by (simp add: summarize_start_def)
    then show ?thesis
      using that by (simp add: summarizeText_past_guards split: prod.split sum.split)
  qed
  have empty_or_stored: "summary (fst (summarizeText fetch s)) = Some [] \<or>
         (\<exists>resp r. fetch (summarize_request (extractedText s)) = Some resp \<and> ok resp
            \<and> json resp = JsonObject r
            \<and> first_part_text (Some r) = Inr (summary (fst (summarizeText fetch s))))"
    if guards: "extractedText s \<noteq> []" "length (extractedText s) \<le> 50000"
  proof -
    obtain r sent where r: "summarize_try fetch (summarize_start s) = (r, sent)"
      by (cases "summarize_try fetch (summarize_start s)")
    show ?thesis
    proof (cases r)
      case (Inl err)
      with r guards show ?thesis
        by (simp add: summarizeText_past_guards summarize_start_def)
    next
      case (Inr s')
      with r have "summarize_try fetch (summarize_start s) = (Inr s', sent)" by simp
      from summarize_try_summary [OF this] Inr r guards show ?thesis
        by (simp add: summarizeText_past_guards summarize_start_def)
    qed
  qed
  have rejected: "extractedText s = [] \<or> 50000 < length (extractedText s) \<longrightarrow>
        summary (fst (summarizeText fetch s)) = summary s
        \<and> (error (fst (summarizeText fetch s)) = msg_no_text
           \<or> error (fst (summarizeText fetch s)) = msg_too_long)"
    by (auto simp: summarizeText_def)
  from forget empty_or_stored rejected show ?thesis by blast
qed

theorem summarize_forgets_summary_and_error_witness:
  "summarizeText fetch_summary
     (ready_state\<lparr>summary := Some ''An earlier summary.'', error := ''An earlier error.''\<rparr>) =
     summarizeText fetch_summary ready_state
   \<and> summary (fst (summarizeText fetch_rejects oversized_state)) = summary oversized_state"
proof -
  have "extractedText ready_state \<noteq> [] \<and> length (extractedText ready_state) \<le> 50000"
    by (simp add: ready_state_def newline_def)
  moreover have "50000 < length (extractedText oversized_state)"
    by (simp add: oversized_state_def)
  ultimately show ?thesis
    using summarize_forgets_summary_and_error [where s = ready_state and fetch = fetch_summary
        and old_summary = "Some ''An earlier summary.''" and old_error = "''An earlier error.''"]
      summarize_forgets_summary_and_error [where s = oversized_state and fetch = fetch_rejects]
    by simp
qed

section \<open>Failure messages\<close>

lemma summarizeText_thrown:
  assumes "extractedText s \<noteq> []" and "length (extractedText s) \<le> 50000"
    and "fst (summarize_try fetch (summarize_start s)) = Inl err"
  shows "error (fst (summarizeText fetch s)) = msg_network
    \<and> summary (fst (summarizeText fetch s)) = Some []"
proof -
  obtain sent where "summarize_try fetch (summarize_start s) = (Inl err, sent)"
    using assms(3) by (cases "summarize_try fetch (summarize_start s)") simp
  then show ?thesis
    using assms(1,2) by (simp add: summarizeText_past_guards summarize_start_def)
qed

lemma summarizeText_classified:
  assumes "extractedText s \<noteq> []" and "length (extractedText s) \<le> 50000"
    and "fetch (summarize_request (extractedText s)) = Some resp"
    and "json resp = JsonObject r"
    and "has_summary (ok resp) (Some r) = Inr False"
  shows "api_failure_message (Some r) = Inr (error (fst (summarizeText fetch s)))
    \<and> summary (fst (summarizeText fetch s)) = Some []"
proof -
  have "\<exists>msg. api_failure_message (Some r) = Inr msg"
    by (simp add: api_failure_message_def)
  then obtain msg where msg: "api_failure_message (Some r) = Inr msg" ..
  have "summarize_try fetch (summarize_start s) =
      (Inr ((summarize_start s)\<lparr>error := msg\<rparr>), [summarize_request (extractedText s)])"
    using assms(3-5) msg by (simp add: summarize_try_def summarize_start_def)
  then show ?thesis
    using assms(1,2) msg by (simp add: summarizeText_past_guards summarize_start_def)
qed

text \<open>
  What an attempt that passes both guards stores when it does not reach line 112. When
  the \<open>try\<close> block throws, the connectivity message is stored; it throws when
  \<open>fetch\<close> rejects, when the body is not JSON or is \<open>null\<close>, and, for a response
  that indicates success, when the first candidate is \<open>null\<close> or when the first part of
  a first candidate with parts is \<open>null\<close>. When the condition of lines 108 to 110 is
  false, the message is chosen in this order: a non-empty \<open>error.message\<close> is surfaced
  after \<open>API Error: \<close>; else a non-empty \<open>promptFeedback.blockReason\<close> is surfaced in
  the blocked message; else an empty candidate list gives the fixed no-candidates
  message; else the unexpected-response message is stored. In each of these cases the
  summary is empty afterwards.
\<close>

lemma classified_failure_messages:
  fixes s :: app_state and fetch :: fetch_fn
  defines "req \<equiv> summarize_request (extractedText s)"
    and "s' \<equiv> fst (summarizeText fetch s)"
  assumes "extractedText s \<noteq> []" and "length (extractedText s) \<le> 50000"
  shows
    "(fetch req = None \<longrightarrow> error s' = msg_network \<and> summary s' = Some [])
   \<and> (fetch req = Some resp \<and> (json resp = JsonInvalid \<or> json resp = JsonNull) \<longrightarrow>
        error s' = msg_network \<and> summary s' = Some [])
   \<and> (fetch req = Some resp \<and> json resp = JsonObject r \<and> ok resp
        \<and> candidates r = Some (None # cs) \<longrightarrow>
        error s' = msg_network \<and> summary s' = Some [])
   \<and> (fetch req = Some resp \<and> json resp = JsonObject r \<and> ok resp
        \<and> candidates r = Some (Some c # cs) \<and> content c = Some ct
        \<and> parts ct = Some (None # ps) \<longrightarrow>
        error s' = msg_network \<and> summary s' = Some [])
   \<and> (fetch req = Some resp \<and> json resp = JsonObject r
        \<and> has_summary (ok resp) (Some r) = Inr False \<longrightarrow>
        summary s' = Some []
        \<and> (error_message r = Some m \<and> m \<noteq> [] \<longrightarrow> error s' = ''API Error: '' @ m)
        \<and> (\<not> truthy (error_message r) \<and> block_reason r = Some b \<and> b \<noteq> [] \<longrightarrow>
             error s' = ''Summary blocked due to: '' @ b @
               ''. Content might violate safety policies.'')
        \<and> (\<not> truthy (error_message r) \<and> \<not> truthy (block_reason r)
             \<and> candidates r = Some [] \<longrightarrow> error s' = msg_no_candidates)
        \<and> (\<not> truthy (error_message r) \<and> \<not> truthy (block_reason r)
             \<and> candidates r \<noteq> Some [] \<longrightarrow> error s' = msg_unexpected))"
proof -
  note guards = assms(3,4)
  have thrown: "error s' = msg_network \<and> summary s' = Some []"
    if "fst (summarize_try fetch (summarize_start s)) = Inl err" for err
    unfolding s'_def by (rule summarizeText_thrown [OF guards that])
  have start: "extractedText (summarize_start s) = extractedText s"
    by (simp add: summarize_start_def)
  have c1: "fetch req = None \<longrightarrow> error s' = msg_network \<and> summary s' = Some []"
  proof
    assume "fetch req = None"
    then have "fst (summarize_try fetch (summarize_start s)) = Inl Rejection"
      by (simp add: summarize_try_def start req_def)
    then show "error s' = msg_network \<and> summary s' = Some []" by (rule thrown)
  qed
  have c2: "fetch req = Some resp \<and> (json resp = JsonInvalid \<or> json resp = JsonNull) \<longrightarrow>
        error s' = msg_network \<and> summary s' = Some []"
  proof
    assume "fetch req = Some resp \<and> (json resp = JsonInvalid \<or> json resp = JsonNull)"
    then have "fst (summarize_try fetch (summarize_start s)) = Inl SyntaxError
        \<or> fst (summarize_try fetch (summarize_start s)) = Inl TypeError"
      by (cases "ok resp")
        (auto simp: summarize_try_def start req_def has_summary_def api_failure_message_def)
    then show "error s' = msg_network \<and> summary s' = Some []" using thrown by blast
  qed
  have c3: "fetch req = Some resp \<and> json resp = JsonObject r \<and> ok resp
        \<and> candidates r = Some (None # cs) \<longrightarrow>
        error s' = msg_network \<and> summary s' = Some []"
  proof
    assume "fetch req = Some resp \<and> json resp = JsonObject r \<and> ok resp
        \<and> candidates r = Some (None # cs)"
    then have "fst (summarize_try fetch (summarize_start s)) = Inl TypeError"
      by (simp add: summarize_try_def start req_def has_summary_def)
    then show "error s' = msg_network \<and> summary s' = Some []" by (rule thrown)
  qed
  have c4: "fetch req = Some resp \<and> json resp = JsonObject r \<and> ok resp
        \<and> candidates r = Some (Some c # cs) \<and> content c = Some ct
        \<and> parts ct = Some (None # ps) \<longrightarrow>
        error s' = msg_network \<and> summary s' = Some []"
  proof
    assume "fetch req = Some resp \<and> json resp = JsonObject r \<and> ok resp
        \<and> candidates r = Some (Some c # cs) \<and> content c = Some ct
        \<and> parts ct = Some (None # ps)"
    then have "fst (summarize_try fetch (summarize_start s)) = Inl TypeError"
      by (simp add: summarize_try_def start req_def has_summary_def first_part_text_def)
    then show "error s' = msg_network \<and> summary s' = Some []" by (rule thrown)
  qed
  have c5: "fetch req = Some resp \<and> json resp = JsonObject r
        \<and> has_summary (ok resp) (Some r) = Inr False \<longrightarrow>
        summary s' = Some []
        \<and> (error_message r = Some m \<and> m \<noteq> [] \<longrightarrow> error s' = ''API Error: '' @ m)
        \<and> (\<not> truthy (error_message r) \<and> block_reason r = Some b \<and> b \<noteq> [] \<longrightarrow>
             error s' = ''Summary blocked due to: '' @ b @
               ''. Content might violate safety policies.'')
        \<and> (\<not> truthy (error_message r) \<and> \<not> truthy (block_reason r)
             \<and> candidates r = Some [] \<longrightarrow> error s' = msg_no_candidates)
        \<and> (\<not> truthy (error_message r) \<and> \<not> truthy (block_reason r)
             \<and> candidates r \<noteq> Some [] \<longrightarrow> error s' = msg_unexpected)"
  proof
    assume h: "fetch req = Some resp \<and> json resp = JsonObject r
        \<and> has_summary (ok resp) (Some r) = Inr False"
    then have cl: "api_failure_message (Some r) = Inr (error s')" and su: "summary s' = Some []"
      using summarizeText_classified [OF guards, of fetch resp r]
      by (simp_all add: req_def s'_def)
    have a: "error_message r = Some m \<and> m \<noteq> [] \<longrightarrow> error s' = ''API Error: '' @ m"
      using cl by (auto simp: api_failure_message_def truthy_def)
    have b: "\<not> truthy (error_message r) \<and> block_reason r = Some b \<and> b \<noteq> [] \<longrightarrow>
             error s' = ''Summary blocked due to: '' @ b @
               ''. Content might violate safety policies.''"
      using cl by (auto simp: api_failure_message_def truthy_def)
    have c: "\<not> truthy (error_message r) \<and> \<not> truthy (block_reason r)
             \<and> candidates r = Some [] \<longrightarrow> error s' = msg_no_candidates"
      using cl by (auto simp: api_failure_message_def)
    have d: "\<not> truthy (error_message r) \<and> \<not> truthy (block_reason r)
             \<and> candidates r \<noteq> Some [] \<longrightarrow> error s' = msg_unexpected"
      using cl by (cases "candidates r") (auto simp: api_failure_message_def)
    from su a b c d show "summary s' = Some []
        \<and> (error_message r = Some m \<and> m \<noteq> [] \<longrightarrow> error s' = ''API Error: '' @ m)
        \<and> (\<not> truthy (error_message r) \<and> block_reason r = Some b \<and> b \<noteq> [] \<longrightarrow>
             error s' = ''Summary blocked due to: '' @ b @
               ''. Content might violate safety policies.'')
        \<and> (\<not> truthy (error_message r) \<and> \<not> truthy (block_reason r)
             \<and> candidates r = Some [] \<longrightarrow> error s' = msg_no_candidates)
        \<and> (\<not> truthy (error_message r) \<and> \<not> truthy (block_reason r)
             \<and> candidates r \<noteq> Some [] \<longrightarrow> error s' = msg_unexpected)"
      by blast
  qed
  from c1 c2 c3 c4 c5 show ?thesis by blast
qed

lemma classified_failure_messages_examples:
  "error (fst (summarizeText fetch_rejects ready_state)) = msg_network
   \<and> error (fst (summarizeText fetch_null_body ready_state)) = msg_network
   \<and> error (fst (summarizeText fetch_api_error ready_state)) = ''API Error: API key not valid.''
   \<and> error (fst (summarizeText fetch_blocked ready_state)) =
       ''Summary blocked due to: SAFETY. Content might violate safety policies.''
   \<and> error (fst (summarizeText fetch_no_candidates ready_state)) = msg_no_candidates
   \<and> error (fst (summarizeText fetch_bare ready_state)) = msg_unexpected
   \<and> summary (fst (summarizeText fetch_api_error ready_state)) = Some []"
proof -
  have guards: "extractedText ready_state \<noteq> []" "length (extractedText ready_state) \<le> 50000"
    by (simp_all add: ready_state_def newline_def)
  have "error (fst (summarizeText fetch_rejects ready_state)) = msg_network"
    using classified_failure_messages [OF guards, where fetch = fetch_rejects]
    by (simp add: fetch_rejects_def)
  moreover have "error (fst (summarizeText fetch_null_body ready_state)) = msg_network"
    using classified_failure_messages [OF guards, where fetch = fetch_null_body
        and resp = "\<lparr>ok = False, json = JsonNull\<rparr>"]
    by (simp add: fetch_null_body_def)
  moreover have "error (fst (summarizeText fetch_api_error ready_state)) =
        ''API Error: API key not valid.''
      \<and> summary (fst (summarizeText fetch_api_error ready_state)) = Some []"
    using classified_failure_messages [OF guards, where fetch = fetch_api_error
        and resp = "\<lparr>ok = False, json = JsonObject error_result\<rparr>" and r = error_result
        and m = "''API key not valid.''"]
    by (simp add: fetch_api_error_def error_result_def has_summary_def error_message_def)
  moreover have "error (fst (summarizeText fetch_blocked ready_state)) =
        ''Summary blocked due to: SAFETY. Content might violate safety policies.''"
    using classified_failure_messages [OF guards, where fetch = fetch_blocked
        and resp = "\<lparr>ok = True, json = JsonObject blocked_result\<rparr>" and r = blocked_result
        and b = "''SAFETY''"]
    by (simp add: fetch_blocked_def blocked_result_def has_summary_def error_message_def
        block_reason_def truthy_def)
  moreover have "error (fst (summarizeText fetch_no_candidates ready_state)) = msg_no_candidates"
    using classified_failure_messages [OF guards, where fetch = fetch_no_candidates
        and resp = "\<lparr>ok = True, json = JsonObject empty_result\<rparr>" and r = empty_result]
    by (simp add: fetch_no_candidates_def empty_result_def has_summary_def error_message_def
        block_reason_def truthy_def)
  moreover have "error (fst (summarizeText fetch_bare ready_state)) = msg_unexpected"
    using classified_failure_messages [OF guards, where fetch = fetch_bare
        and resp = "\<lparr>ok = True, json = JsonObject bare_result\<rparr>" and r = bare_result]
    by (simp add: fetch_bare_def bare_result_def has_summary_def error_message_def
        block_reason_def truthy_def)
  ultimately show ?thesis by simp
qed

text \<open>
  The condition of lines 108 to 110 does not ask whether the first part has a text: when
  it holds and the first part is there, line 112 stores whatever \<open>parts[0].text\<close> is,
  and no message.
\<close>

lemma first_part_text_is_stored:
  assumes "extractedText s \<noteq> []" and "length (extractedText s) \<le> 50000"
    and "fetch (summarize_request (extractedText s)) = Some resp"
    and "ok resp" and "json resp = JsonObject r"
    and "candidates r = Some (Some c # cs)" and "content c = Some ct"
    and "parts ct = Some (Some p # ps)"
  shows "summary (fst (summarizeText fetch s)) = part_text p
    \<and> error (fst (summarizeText fetch s)) = []"
proof -
  have cond: "has_summary (ok resp) (Some r) = Inr True"
    using assms(4) has_summary_True [OF assms(6) assms(7) assms(8)] by simp
  have first_text: "first_part_text (Some r) = Inr (part_text p)"
    using assms(6-8) by (simp add: first_part_text_def)
  have "summarize_try fetch (summarize_start s) =
          (Inr ((summarize_start s)\<lparr>summary := part_text p\<rparr>),
           [summarize_request (extractedText s)])"
    using assms(3,5) cond first_text by (simp add: summarize_try_def summarize_start_def)
  then show ?thesis
    using assms(1,2) by (simp add: summarizeText_past_guards summarize_start_def)
qed

lemma textless_part_gets_no_message:
  "error_message textless_result = Some ''quota exceeded''
   \<and> summarizeText fetch_textless ready_state =
       (ready_state\<lparr>summary := None\<rparr>, [summarize_request (extractedText ready_state)])
   \<and> error (fst (summarizeText fetch_textless ready_state)) = []"
  by (simp add: summarizeText_def summarize_try_def summarize_start_def ready_state_def
      fetch_textless_def textless_result_def has_summary_def first_part_text_def
      error_message_def newline_def)

text \<open>
  Claim C5. The order of the claim is the order of lines 115 to 124, and the code follows
  it on every body that is an object. It does not on the body \<open>null\<close>. A failed
  request answered with \<open>{}\<close> carries no error object, no block reason and no
  candidate list, and the unexpected-response message is stored, as the claim says. The
  same response with the body \<open>null\<close> carries none of them either, and the network
  call has not thrown; but reading \<open>result.error\<close> (line 115) throws, and the
  \<open>catch\<close> of line 127 stores the connectivity message instead. The summary is empty
  in both cases.
\<close>

theorem null_body_reported_as_network_error:
  "fetch_empty_object (summarize_request (extractedText ready_state)) =
     Some \<lparr>ok = False, json = JsonObject bare_result\<rparr>
   \<and> error (fst (summarizeText fetch_empty_object ready_state)) = msg_unexpected
   \<and> fetch_null_body (summarize_request (extractedText ready_state)) =
     Some \<lparr>ok = False, json = JsonNull\<rparr>
   \<and> error (fst (summarizeText fetch_null_body ready_state)) = msg_network
   \<and> msg_network \<noteq> msg_unexpected
   \<and> summary (fst (summarizeText fetch_null_body ready_state)) = Some []"
  by (simp add: summarizeText_def summarize_try_def summarize_start_def ready_state_def
      fetch_null_body_def fetch_empty_object_def bare_result_def has_summary_def
      api_failure_message_def error_message_def block_reason_def truthy_def newline_def
      msg_network_def msg_unexpected_def)

end
